theory Spec2Isabelle
  imports Main "HOL-Library.Word"
begin

section \<open>Strings\<close>

text \<open>
  A JavaScript string is a sequence of UTF-16 code units.  The literals of the source are
  ASCII; \<open>js\<close> turns such a literal into its code units.
\<close>

type_synonym jsstring = "16 word list"

definition js :: "string \<Rightarrow> jsstring" where
  "js cs = map (\<lambda>c. of_nat (of_char c)) cs"

text \<open>
  \<^verbatim>\<open>String.prototype.trim\<close> removes the code points WhiteSpace and LineTerminator of
  ECMAScript from both ends: TAB, VT, FF, SP, NBSP, ZWNBSP, the category Zs
  (U+1680, U+2000 to U+200A, U+202F, U+205F, U+3000), LF, CR, LS and PS.  All of them
  are single code units.
\<close>

definition isWhiteSpace :: "16 word \<Rightarrow> bool" where
  "isWhiteSpace c =
     (c \<in> set [0x0009, 0x000A, 0x000B, 0x000C, 0x000D, 0x0020, 0x00A0, 0x1680,
                0x2028, 0x2029, 0x202F, 0x205F, 0x3000, 0xFEFF]
      \<or> (0x2000 \<le> c \<and> c \<le> 0x200A))"

definition trim :: "jsstring \<Rightarrow> jsstring" where
  "trim s = rev (dropWhile isWhiteSpace (rev (dropWhile isWhiteSpace s)))"

section \<open>The answer of the service\<close>

text \<open>
  \<^verbatim>\<open>interface Answer { status: "success" | "error"; answer: string; diagram?: string }\<close>
  An optional field that is absent is \<open>None\<close>.
\<close>

datatype status = Success | Error

record Answer =
  status :: status
  answer :: jsstring
  diagram :: "jsstring option"

text \<open>
  What \<^verbatim>\<open>response.data\<close> is when the request resolves.  The source types it as
  \<^verbatim>\<open>Answer\<close> and does not check it.  The call leaves the defaults of axios as they
  are, and with them a body that is not JSON, an empty one too, is handed on as the
  string it is.
\<close>

datatype responseData = AnswerData Answer | StringData jsstring

section \<open>Rendering\<close>

text \<open>
  The rendered tree.  An element carries its tag, its \<^verbatim>\<open>className\<close> and its children;
  \<open>SVGRenderer\<close> and \<open>LatexRenderer\<close> are the two child components, each with the one
  string it is given (\<^verbatim>\<open>svgContent\<close>, \<^verbatim>\<open>content\<close>);
  \<open>LatexRenderer_undefined\<close> is \<open>LatexRenderer\<close> given \<^verbatim>\<open>undefined\<close>.  Other attributes
  and the event handlers are not part of the tree.
\<close>

datatype node =
    Elem string string "node list"
  | Txt string
  | SVGRenderer jsstring
  | LatexRenderer jsstring
  | LatexRenderer_undefined

text \<open>The leaves of a tree, in document order.\<close>

fun leaves :: "node \<Rightarrow> node list" where
  "leaves (Elem tag cls children) = concat (map leaves children)"
| "leaves n = [n]"

text \<open>
  \<^verbatim>\<open>cond && <x/>\<close> renders the element when the condition holds and nothing otherwise.
\<close>

definition renderIf :: "bool \<Rightarrow> node \<Rightarrow> node list" where
  "renderIf b n = (if b then [n] else [])"

text \<open>
  \<^verbatim>\<open>const hasDiagram = !!data.diagram && data.diagram.trim().length > 0\<close>:
  an absent field and the empty string are falsy.
\<close>

definition hasDiagram :: "Answer \<Rightarrow> bool" where
  "hasDiagram data =
     (case diagram data of
        None \<Rightarrow> False
      | Some d \<Rightarrow> d \<noteq> [] \<and> length (trim d) > 0)"

text \<open>\<^verbatim>\<open>data.diagram || ''\<close>\<close>

definition diagramOrEmpty :: "Answer \<Rightarrow> jsstring" where
  "diagramOrEmpty data = (case diagram data of None \<Rightarrow> [] | Some d \<Rightarrow> d)"

text \<open>\<^verbatim>\<open>src/components/ResponseRenderer.tsx\<close>; the status is not read.\<close>

definition ResponseRenderer :: "Answer \<Rightarrow> node" where
  "ResponseRenderer data =
     Elem ''div'' ''response-content w-full''
       (renderIf (hasDiagram data)
          (Elem ''div'' ''diagram-section mb-4''
             [Elem ''h4'' ''text-base md:text-lg font-semibold text-blue-600 mb-2 md:mb-3''
                [Txt ''Diagram''],
              Elem ''div'' ''w-full overflow-x-auto'' [SVGRenderer (diagramOrEmpty data)]])
        @ [Elem ''div'' ''answer-section''
             (renderIf (hasDiagram data)
                (Elem ''h4'' ''text-base md:text-lg font-semibold text-blue-600 mb-2 md:mb-3''
                   [Txt ''Explanation''])
              @ [Elem ''div'' ''w-full overflow-x-auto text-sm md:text-base''
                   [LatexRenderer (answer data)]])])"

text \<open>The other copy of the component in the repository: the same tree without the
  two wrapping \<^verbatim>\<open>div\<close>s.\<close>

definition ResponseRenderer_plain :: "Answer \<Rightarrow> node" where
  "ResponseRenderer_plain data =
     Elem ''div'' ''response-content''
       (renderIf (hasDiagram data)
          (Elem ''div'' ''diagram-section mb-4''
             [Elem ''h4'' ''text-lg font-semibold text-blue-600 mb-3'' [Txt ''Diagram''],
              SVGRenderer (diagramOrEmpty data)])
        @ [Elem ''div'' ''answer-section''
             (renderIf (hasDiagram data)
                (Elem ''h4'' ''text-lg font-semibold text-blue-600 mb-3'' [Txt ''Explanation''])
              @ [LatexRenderer (answer data)])])"

text \<open>\<^verbatim>\<open>LoadingBlock\<close>\<close>

definition LoadingBlock :: node where
  "LoadingBlock =
     Elem ''div'' ''mt-4 p-4 bg-navy-600 text-white rounded-lg shadow-lg''
       [Elem ''div'' ''flex items-center justify-center space-x-2''
          [Elem ''div'' ''animate-spin rounded-full h-5 w-5 border-b-2 border-white'' [],
           Elem ''span'' ''text-lg font-medium'' [Txt ''Processing image...'']]]"

text \<open>
  The answer panel of \<^verbatim>\<open>ImageUploader\<close>: the class of the box around the
  \<^verbatim>\<open>ResponseRenderer\<close> is red for an error and green otherwise.
\<close>

definition answerClass :: "Answer \<Rightarrow> string" where
  "answerClass a =
     ''p-3 md:p-4 rounded-lg mt-2 '' @
     (if status a = Error then ''bg-red-100 text-red-700'' else ''bg-green-100 text-green-700'')"

definition answerPanel :: "Answer \<Rightarrow> node" where
  "answerPanel a =
     Elem ''div'' ''mt-4''
       [Elem ''h3'' ''font-semibold text-base md:text-lg'' [Txt ''Answer:''],
        Elem ''div'' (answerClass a) [ResponseRenderer a]]"

text \<open>
  The same panel when \<^verbatim>\<open>answer\<close> is a string: \<^verbatim>\<open>answer.status\<close>,
  \<^verbatim>\<open>data.diagram\<close> and \<^verbatim>\<open>data.answer\<close> are \<^verbatim>\<open>undefined\<close>, so the box is green,
  there is no diagram and \<open>LatexRenderer\<close> is given \<^verbatim>\<open>undefined\<close>.
\<close>

definition stringPanel :: node where
  "stringPanel =
     Elem ''div'' ''mt-4''
       [Elem ''h3'' ''font-semibold text-base md:text-lg'' [Txt ''Answer:''],
        Elem ''div'' (''p-3 md:p-4 rounded-lg mt-2 '' @ ''bg-green-100 text-green-700'')
          [Elem ''div'' ''response-content w-full''
             [Elem ''div'' ''answer-section''
                [Elem ''div'' ''w-full overflow-x-auto text-sm md:text-base''
                   [LatexRenderer_undefined]]]]]"

definition dataPanel :: "responseData \<Rightarrow> node" where
  "dataPanel d = (case d of AnswerData a \<Rightarrow> answerPanel a | StringData t \<Rightarrow> stringPanel)"

text \<open>\<^verbatim>\<open>answer && ...\<close>: an object is truthy, a string is unless it is empty.\<close>

definition truthy :: "responseData \<Rightarrow> bool" where
  "truthy d = (case d of AnswerData a \<Rightarrow> True | StringData t \<Rightarrow> t \<noteq> [])"

section \<open>The state of the image uploader\<close>

text \<open>A \<^verbatim>\<open>Blob\<close> (a \<^verbatim>\<open>File\<close> is one): its media type and its bytes.\<close>

datatype Blob = Blob (mime: jsstring) (bytes: "8 word list")

datatype js_error = TypeError | DOMException jsstring | AxiosError jsstring

text \<open>What a synchronous stretch of a handler ends with.\<close>

datatype outcome = Returned | Threw js_error

text \<open>
  The console.  The size of a blob is logged in KB with two decimals; the entry keeps
  the size in bytes.
\<close>

datatype logarg = LStr jsstring | LBlobInfo jsstring nat | LErr js_error

datatype logline = ConsoleLog "logarg list" | ConsoleError "logarg list"

text \<open>A \<^verbatim>\<open>FormData\<close> is the list of its entries; a request is what
  \<^verbatim>\<open>axios.post\<close> is given.\<close>

datatype formvalue = FBlob Blob | FString jsstring

type_synonym FormData = "(jsstring \<times> formvalue) list"

record request =
  url :: jsstring
  body :: FormData
  headers :: "(jsstring \<times> jsstring) list"

text \<open>
  A \<^verbatim>\<open>MediaStream\<close> is the list of its tracks (\<^verbatim>\<open>getTracks()\<close>); a track is
  an identifier whose \<^verbatim>\<open>readyState\<close> lives in the store, since \<^verbatim>\<open>stop()\<close> changes
  it for every holder of the stream.  The \<^verbatim>\<open>video\<close> element has a \<^verbatim>\<open>srcObject\<close>,
  \<^verbatim>\<open>null\<close> until one is assigned.
\<close>

type_synonym MediaStream = "nat list"

datatype readyState = live | ended

record video =
  srcObject :: "MediaStream option"

text \<open>
  The component's state: the four \<^verbatim>\<open>useState\<close> variables (\<open>answer_state\<close> is the
  variable \<^verbatim>\<open>answer\<close>), \<^verbatim>\<open>videoRef.current\<close>, and the world around it: the state
  of every camera track, the calls that have not settled yet (\<^verbatim>\<open>getUserMedia\<close>,
  \<^verbatim>\<open>readAsDataURL\<close>, \<^verbatim>\<open>toBlob\<close>, \<^verbatim>\<open>axios.post\<close>) and the console.
\<close>

record state =
  selectedImage :: "jsstring option"
  answer_state :: "responseData option"
  loading :: bool
  showCamera :: bool
  videoRef :: "video option"
  trackState :: "nat \<Rightarrow> readyState"
  cameraRequests :: nat
  readers :: nat
  toBlobs :: nat
  inflight :: "request list"
  console :: "logline list"

definition init :: state where
  "init = \<lparr>selectedImage = None, answer_state = None, loading = False, showCamera = False,
           videoRef = None, trackState = (\<lambda>t. live), cameraRequests = 0, readers = 0,
           toBlobs = 0, inflight = [], console = []\<rparr>"

section \<open>The handlers\<close>

text \<open>
  Each definition is one synchronous stretch of a handler: it runs from the call, or from
  the point where an awaited promise settles or a callback is called, to the next
  \<^verbatim>\<open>await\<close> or to the end.  What the awaited call settles with is an argument.
\<close>

definition formData :: "Blob \<Rightarrow> FormData" where
  "formData file =
     [(js ''image'', FBlob file),
      (js ''question'',
       FString (js ''Can you review this image and solve the question with step by step reasoning?''))]"

definition logFormData :: "FormData \<Rightarrow> logline list" where
  "logFormData fd =
     ConsoleLog [LStr (js ''FormData contents:'')] #
     map (\<lambda>(key, v).
            case v of
              FBlob b \<Rightarrow> ConsoleLog [LStr (key @ js '':''), LBlobInfo (mime b) (length (bytes b))]
            | FString t \<Rightarrow> ConsoleLog [LStr (key @ js '':''), LStr t]) fd"

definition uploadRequest :: "Blob \<Rightarrow> request" where
  "uploadRequest file =
     \<lparr>url = js ''/ask'', body = formData file,
      headers = [(js ''Content-Type'', js ''multipart/form-data'')]\<rparr>"

text \<open>\<^verbatim>\<open>uploadImage\<close> up to \<^verbatim>\<open>await axios.post(...)\<close>.\<close>

definition uploadImage :: "state \<Rightarrow> Blob \<Rightarrow> state" where
  "uploadImage s file =
     s\<lparr>loading := True,
       console := console s @ logFormData (formData file),
       inflight := inflight s @ [uploadRequest file]\<rparr>"

definition failureAnswer :: Answer where
  "failureAnswer =
     \<lparr>status = Error, answer = js ''Failed to process the image. Please try again.'',
      diagram = None\<rparr>"

text \<open>
  \<^verbatim>\<open>uploadImage\<close> from the point where the request settles: with the response's
  \<^verbatim>\<open>data\<close>, or rejected with an error, which the \<^verbatim>\<open>catch\<close> takes; the
  \<^verbatim>\<open>finally\<close> runs after either.
\<close>

definition uploadImage_settled :: "state \<Rightarrow> js_error + responseData \<Rightarrow> outcome \<times> state" where
  "uploadImage_settled s r =
     (let s1 = (case r of
                  Inr data \<Rightarrow> s\<lparr>answer_state := Some data\<rparr>
                | Inl err \<Rightarrow>
                    s\<lparr>console := console s @
                         [ConsoleError [LStr (js ''Error uploading image:''), LErr err]],
                      answer_state := Some (AnswerData failureAnswer)\<rparr>)
      in (Returned, s1\<lparr>loading := False\<rparr>))"

text \<open>\<^verbatim>\<open>handleFileSelect\<close>, with \<^verbatim>\<open>event.target.files?.[0]\<close>.\<close>

definition handleFileSelect :: "state \<Rightarrow> Blob option \<Rightarrow> state" where
  "handleFileSelect s file =
     (case file of
        None \<Rightarrow> s
      | Some f \<Rightarrow>
          uploadImage (s\<lparr>answer_state := None, loading := True, readers := Suc (readers s)\<rparr>) f)"

text \<open>\<^verbatim>\<open>reader.onloadend\<close>, with \<^verbatim>\<open>reader.result\<close>.\<close>

definition readerOnLoadEnd :: "state \<Rightarrow> jsstring option \<Rightarrow> state" where
  "readerOnLoadEnd s result = s\<lparr>selectedImage := result\<rparr>"

text \<open>\<^verbatim>\<open>startCamera\<close> from the point where \<^verbatim>\<open>getUserMedia\<close> settles.\<close>

definition startCamera :: "state \<Rightarrow> js_error + MediaStream \<Rightarrow> state" where
  "startCamera s r =
     (case r of
        Inr stream \<Rightarrow>
          s\<lparr>videoRef := (case videoRef s of
                            None \<Rightarrow> None
                          | Some v \<Rightarrow> Some (v\<lparr>srcObject := Some stream\<rparr>)),
            showCamera := True,
            answer_state := None\<rparr>
      | Inl err \<Rightarrow>
          s\<lparr>console := console s @
               [ConsoleError [LStr (js ''Error accessing camera:''), LErr err]]\<rparr>)"

text \<open>\<^verbatim>\<open>stream.getTracks().forEach(track => track.stop())\<close>\<close>

definition stopTracks :: "MediaStream \<Rightarrow> state \<Rightarrow> state" where
  "stopTracks stream s = fold (\<lambda>t s'. s'\<lparr>trackState := (trackState s')(t := ended)\<rparr>) stream s"

text \<open>
  \<^verbatim>\<open>captureImage\<close>.  The call of \<^verbatim>\<open>toBlob\<close> only queues its callback.  The cast
  \<^verbatim>\<open>videoRef.current.srcObject as MediaStream\<close> checks nothing: with a \<^verbatim>\<open>srcObject\<close>
  that is \<^verbatim>\<open>null\<close>, \<^verbatim>\<open>stream.getTracks()\<close> throws a \<^verbatim>\<open>TypeError\<close>, after the
  state setters and \<^verbatim>\<open>toBlob\<close> have been called.
\<close>

definition captureImage :: "state \<Rightarrow> outcome \<times> state" where
  "captureImage s =
     (case videoRef s of
        None \<Rightarrow> (Returned, s)
      | Some v \<Rightarrow>
          (let s1 = s\<lparr>answer_state := None, loading := True, toBlobs := Suc (toBlobs s)\<rparr>
           in case srcObject v of
                None \<Rightarrow> (Threw TypeError, s1)
              | Some stream \<Rightarrow> (Returned, (stopTracks stream s1)\<lparr>showCamera := False\<rparr>)))"

text \<open>The callback given to \<^verbatim>\<open>toBlob\<close>, with the blob and with
  \<^verbatim>\<open>canvas.toDataURL('image/jpeg')\<close>.\<close>

definition toBlobCallback :: "state \<Rightarrow> Blob option \<Rightarrow> jsstring \<Rightarrow> state" where
  "toBlobCallback s blob dataURL =
     (case blob of
        None \<Rightarrow> s
      | Some b \<Rightarrow> uploadImage (s\<lparr>selectedImage := Some dataURL\<rparr>) b)"

section \<open>The view\<close>

definition ImageUploader :: "state \<Rightarrow> node" where
  "ImageUploader s =
     Elem ''div'' ''bg-white rounded-lg shadow-lg p-4 md:p-6 w-full''
       ([Elem ''h2'' ''text-xl md:text-2xl font-bold mb-4 text-center''
           [Txt ''Multimodal QnA Agent''],
         (if showCamera s
          then Elem ''div'' ''relative''
                 [Elem ''video'' ''w-full rounded-lg'' [],
                  Elem ''button''
                    ''absolute bottom-4 left-1/2 transform -translate-x-1/2 bg-blue-500 text-white px-4 py-2 rounded-full hover:bg-blue-600''
                    [Txt ''Capture'']]
          else Elem ''div'' ''space-y-4''
                 ([Elem ''div'' ''flex justify-center gap-3 md:gap-4''
                     [Elem ''button''
                        ''bg-blue-500 text-white px-3 py-2 md:px-4 md:py-2 rounded-lg hover:bg-blue-600 text-sm md:text-base''
                        [Txt ''Choose File''],
                      Elem ''button''
                        ''bg-green-500 text-white px-3 py-2 md:px-4 md:py-2 rounded-lg hover:bg-green-600 text-sm md:text-base''
                        [Txt ''Take Photo'']],
                   Elem ''input'' ''hidden'' []]
                  @ (case selectedImage s of
                       None \<Rightarrow> []
                     | Some src \<Rightarrow>
                         renderIf (src \<noteq> [])
                           (Elem ''div'' ''mt-4'' [Elem ''img'' ''w-full rounded-lg'' []]))))]
        @ renderIf (loading s) LoadingBlock
        @ (case answer_state s of
             None \<Rightarrow> []
           | Some d \<Rightarrow> renderIf (truthy d) (dataPanel d)))"

text \<open>
  The \<^verbatim>\<open>video\<close> element is in the tree exactly when \<^verbatim>\<open>showCamera\<close> holds.  After
  a render React sets \<^verbatim>\<open>videoRef.current\<close> to the element when it is mounted, a new
  element having no \<^verbatim>\<open>srcObject\<close>, and to \<^verbatim>\<open>null\<close> when it is unmounted.
\<close>

definition commit :: "state \<Rightarrow> state" where
  "commit s =
     s\<lparr>videoRef := (if showCamera s
                     then (case videoRef s of
                             None \<Rightarrow> Some \<lparr>srcObject = None\<rparr>
                           | Some v \<Rightarrow> Some v)
                     else None)\<rparr>"

section \<open>Events\<close>

text \<open>
  What can happen to the component: the user changes the file input, clicks
  \<^emph>\<open>Take Photo\<close> or \<^emph>\<open>Capture\<close> (each possible when its control is in the tree), or
  a pending call settles.  An event that is not possible leaves the state as it is.
  The state is rendered after every event.
\<close>

datatype event =
    FileChange "Blob option"
  | ReaderLoadEnd "jsstring option"
  | TakePhoto
  | UserMedia "js_error + MediaStream"
  | Capture
  | ToBlob "Blob option" jsstring
  | PostSettled nat "js_error + responseData"

fun step :: "state \<Rightarrow> event \<Rightarrow> state" where
  "step s (FileChange file) =
     (if showCamera s then s else commit (handleFileSelect s file))"
| "step s (ReaderLoadEnd result) =
     (if readers s = 0 then s
      else commit (readerOnLoadEnd (s\<lparr>readers := readers s - 1\<rparr>) result))"
| "step s TakePhoto =
     (if showCamera s then s else s\<lparr>cameraRequests := Suc (cameraRequests s)\<rparr>)"
| "step s (UserMedia r) =
     (if cameraRequests s = 0 then s
      else commit (startCamera (s\<lparr>cameraRequests := cameraRequests s - 1\<rparr>) r))"
| "step s Capture =
     (if showCamera s then commit (snd (captureImage s)) else s)"
| "step s (ToBlob blob dataURL) =
     (if toBlobs s = 0 then s
      else commit (toBlobCallback (s\<lparr>toBlobs := toBlobs s - 1\<rparr>) blob dataURL))"
| "step s (PostSettled i r) =
     (if i < length (inflight s)
      then commit (snd (uploadImage_settled
                          (s\<lparr>inflight := take i (inflight s) @ drop (Suc i) (inflight s)\<rparr>) r))
      else s)"

definition run :: "state \<Rightarrow> event list \<Rightarrow> state" where
  "run s es = foldl step s es"

text \<open>The events that are actions of the user.\<close>

fun userEvent :: "event \<Rightarrow> bool" where
  "userEvent (FileChange file) = True"
| "userEvent TakePhoto = True"
| "userEvent Capture = True"
| "userEvent e = False"

text \<open>
  The runs in which no request settles while a \<^verbatim>\<open>toBlob\<close> callback is pending,
  that is between a capture and the call of its callback.
\<close>

fun orderly :: "state \<Rightarrow> event list \<Rightarrow> bool" where
  "orderly s [] = True"
| "orderly s (e # es) =
     ((case e of PostSettled i r \<Rightarrow> toBlobs s = 0 | _ \<Rightarrow> True) \<and> orderly (step s e) es)"

text \<open>The events other than a \<^verbatim>\<open>toBlob\<close> callback that is given a blob.\<close>

fun blobless :: "event \<Rightarrow> bool" where
  "blobless (ToBlob (Some b) dataURL) = False"
| "blobless e = True"

section \<open>Properties of the renderer\<close>

lemma trim_empty_iff: "trim s = [] \<longleftrightarrow> (\<forall>c\<in>set s. isWhiteSpace c)"
proof
  assume "trim s = []"
  then have "\<forall>c\<in>set (dropWhile isWhiteSpace s). isWhiteSpace c"
    by (simp add: trim_def)
  then have "dropWhile isWhiteSpace s = []"
    using hd_dropWhile [of isWhiteSpace s] hd_in_set [of "dropWhile isWhiteSpace s"]
    by blast
  then show "\<forall>c\<in>set s. isWhiteSpace c"
    by simp
next
  assume "\<forall>c\<in>set s. isWhiteSpace c"
  then show "trim s = []"
    by (auto simp: trim_def dest: set_dropWhileD)
qed

lemma hasDiagram_iff:
  "hasDiagram data \<longleftrightarrow> (\<exists>d. diagram data = Some d \<and> (\<exists>c\<in>set d. \<not> isWhiteSpace c))"
  by (auto simp: hasDiagram_def trim_empty_iff split: option.splits)

lemma leaves_ResponseRenderer:
  "leaves (ResponseRenderer data) =
     (if hasDiagram data
      then [Txt ''Diagram'', SVGRenderer (diagramOrEmpty data), Txt ''Explanation'',
            LatexRenderer (answer data)]
      else [LatexRenderer (answer data)])"
  by (simp add: ResponseRenderer_def renderIf_def)

lemma leaves_ResponseRenderer_plain:
  "leaves (ResponseRenderer_plain data) = leaves (ResponseRenderer data)"
  by (simp add: ResponseRenderer_def ResponseRenderer_plain_def renderIf_def)

lemma diagramOrEmpty_Some: "diagram data = Some d \<Longrightarrow> diagramOrEmpty data = d"
  by (simp add: diagramOrEmpty_def)

lemma leaves_no_diagram:
  assumes "diagram data = None \<or> (\<exists>d. diagram data = Some d \<and> (\<forall>c\<in>set d. isWhiteSpace c))"
  shows "leaves (ResponseRenderer data) = [LatexRenderer (answer data)]"
proof -
  from assms have "\<not> hasDiagram data"
    by (auto simp: hasDiagram_iff)
  then show ?thesis
    by (simp add: leaves_ResponseRenderer)
qed

lemma leaves_with_diagram:
  assumes "diagram data = Some d" and "\<exists>c\<in>set d. \<not> isWhiteSpace c"
  shows "leaves (ResponseRenderer data) =
           [Txt ''Diagram'', SVGRenderer d, Txt ''Explanation'', LatexRenderer (answer data)]"
proof -
  from assms have "hasDiagram data"
    by (auto simp: hasDiagram_iff)
  with assms(1) show ?thesis
    by (simp add: leaves_ResponseRenderer diagramOrEmpty_Some)
qed

lemma ResponseRenderer_ignores_status:
  "ResponseRenderer (data\<lparr>status := st\<rparr>) = ResponseRenderer data"
  "ResponseRenderer_plain (data\<lparr>status := st\<rparr>) = ResponseRenderer_plain data"
  by (simp_all add: ResponseRenderer_def ResponseRenderer_plain_def hasDiagram_def
        diagramOrEmpty_def)

section \<open>Properties of the handlers\<close>

lemma stopTracks_fields:
  "selectedImage (stopTracks stream s) = selectedImage s"
  "answer_state (stopTracks stream s) = answer_state s"
  "loading (stopTracks stream s) = loading s"
  "showCamera (stopTracks stream s) = showCamera s"
  "videoRef (stopTracks stream s) = videoRef s"
  "toBlobs (stopTracks stream s) = toBlobs s"
  "inflight (stopTracks stream s) = inflight s"
  by (induction stream arbitrary: s; simp add: stopTracks_def)+

lemma stopTracks_trackState:
  "trackState (stopTracks stream s) t = (if t \<in> set stream then ended else trackState s t)"
  by (induction stream arbitrary: s) (simp_all add: stopTracks_def)

lemma uploadImage_fields:
  "answer_state (uploadImage s file) = answer_state s"
  "loading (uploadImage s file)"
  "inflight (uploadImage s file) = inflight s @ [uploadRequest file]"
  "showCamera (uploadImage s file) = showCamera s"
  "trackState (uploadImage s file) = trackState s"
  by (simp_all add: uploadImage_def)

lemma handleFileSelect_fields:
  "answer_state (handleFileSelect s (Some f)) = None"
  "loading (handleFileSelect s (Some f))"
  "inflight (handleFileSelect s (Some f)) = inflight s @ [uploadRequest f]"
  by (simp_all add: handleFileSelect_def uploadImage_def)

lemma captureImage_fields:
  assumes "videoRef s = Some v"
  shows "answer_state (snd (captureImage s)) = None"
    and "loading (snd (captureImage s))"
    and "inflight (snd (captureImage s)) = inflight s"
    and "toBlobs (snd (captureImage s)) = Suc (toBlobs s)"
  using assms
  by (simp_all add: captureImage_def Let_def stopTracks_fields split: option.splits)

lemma captureImage_stops:
  assumes "videoRef s = Some v" and "srcObject v = Some stream"
  shows "fst (captureImage s) = Returned"
    and "\<not> showCamera (snd (captureImage s))"
    and "trackState (snd (captureImage s)) t =
           (if t \<in> set stream then ended else trackState s t)"
  using assms
  by (simp_all add: captureImage_def Let_def stopTracks_trackState)

lemma captureImage_throws:
  assumes "videoRef s = Some v" and "srcObject v = None"
  shows "fst (captureImage s) = Threw TypeError"
    and "showCamera (snd (captureImage s)) = showCamera s"
    and "trackState (snd (captureImage s)) = trackState s"
  using assms
  by (simp_all add: captureImage_def Let_def)

lemma toBlobCallback_fields:
  "toBlobCallback s None dataURL = s"
  "answer_state (toBlobCallback s (Some b) dataURL) = answer_state s"
  "loading (toBlobCallback s (Some b) dataURL)"
  "inflight (toBlobCallback s (Some b) dataURL) = inflight s @ [uploadRequest b]"
  by (simp_all add: toBlobCallback_def uploadImage_def)

lemma commit_fields:
  "selectedImage (commit s) = selectedImage s"
  "answer_state (commit s) = answer_state s"
  "loading (commit s) = loading s"
  "showCamera (commit s) = showCamera s"
  "trackState (commit s) = trackState s"
  "inflight (commit s) = inflight s"
  "toBlobs (commit s) = toBlobs s"
  "console (commit s) = console s"
  by (simp_all add: commit_def)






lemma step_keeps_loading:
  assumes "loading s" and "inflight s = []" and "\<not> userEvent e" and "blobless e"
  shows "loading (step s e) \<and> inflight (step s e) = []"
proof (cases e)
  case (ToBlob blob dataURL)
  with assms(4) have "blob = None"
    by (cases blob) simp_all
  with ToBlob assms(1,2) show ?thesis
    by (simp add: toBlobCallback_def commit_def)
next
  case (UserMedia r)
  with assms(1,2) show ?thesis
    by (cases r) (simp_all add: startCamera_def commit_def)
next
  case (ReaderLoadEnd result)
  with assms(1,2) show ?thesis
    by (simp add: readerOnLoadEnd_def commit_def)
next
  case (PostSettled i r)
  with assms(2) show ?thesis
    using assms(1) by simp
qed (use assms(3) in simp_all)

lemma run_keeps_loading:
  assumes "\<forall>e\<in>set es. \<not> userEvent e \<and> blobless e"
    and "loading s" and "inflight s = []"
  shows "loading (run s es) \<and> inflight (run s es) = []"
  using assms
proof (induction es arbitrary: s)
  case Nil
  then show ?case
    by (simp add: run_def)
next
  case (Cons e es)
  from Cons.prems have "loading (step s e) \<and> inflight (step s e) = []"
    by (simp add: step_keeps_loading)
  with Cons.IH [of "step s e"] Cons.prems(1) show ?case
    by (simp add: run_def)
qed

lemma step_ToBlob_Some:
  assumes "0 < toBlobs u"
  shows "answer_state (step u (ToBlob (Some b) dataURL)) = answer_state u"
    and "loading (step u (ToBlob (Some b) dataURL))"
    and "inflight (step u (ToBlob (Some b) dataURL)) = inflight u @ [uploadRequest b]"
  using assms by (simp_all add: commit_def toBlobCallback_def uploadImage_def)

lemma step_keeps_apart:
  assumes "loading s \<longrightarrow> answer_state s = None"
    and "0 < toBlobs s \<longrightarrow> answer_state s = None"
    and "case e of PostSettled i r \<Rightarrow> toBlobs s = 0 | _ \<Rightarrow> True"
  shows "(loading (step s e) \<longrightarrow> answer_state (step s e) = None)
       \<and> (0 < toBlobs (step s e) \<longrightarrow> answer_state (step s e) = None)"
proof (cases e)
  case (FileChange chosen)
  with assms(1,2) show ?thesis
    by (cases chosen) (simp_all add: handleFileSelect_def uploadImage_def commit_def)
next
  case (ReaderLoadEnd result)
  with assms(1,2) show ?thesis
    by (simp add: readerOnLoadEnd_def commit_def)
next
  case TakePhoto
  with assms(1,2) show ?thesis
    by simp
next
  case (UserMedia r)
  with assms(1,2) show ?thesis
    by (cases r) (simp_all add: startCamera_def commit_def)
next
  case Capture
  show ?thesis
  proof (cases "videoRef s")
    case None
    with Capture assms(1,2) show ?thesis
      by (simp add: captureImage_def commit_def)
  next
    case (Some v)
    with Capture assms(1,2) show ?thesis
      by (simp add: commit_fields captureImage_fields [OF Some])
  qed
next
  case (ToBlob blob dataURL)
  with assms(1,2) show ?thesis
    by (cases blob) (auto simp: toBlobCallback_def uploadImage_def commit_def)
next
  case (PostSettled i r)
  with assms show ?thesis
    by (cases r) (simp_all add: uploadImage_settled_def commit_def)
qed

lemma run_keeps_apart:
  assumes "orderly s es"
    and "loading s \<longrightarrow> answer_state s = None"
    and "0 < toBlobs s \<longrightarrow> answer_state s = None"
  shows "(loading (run s es) \<longrightarrow> answer_state (run s es) = None)
       \<and> (0 < toBlobs (run s es) \<longrightarrow> answer_state (run s es) = None)"
  using assms
proof (induction es arbitrary: s)
  case Nil
  then show ?case
    by (simp add: run_def)
next
  case (Cons e es)
  from Cons.prems have e: "case e of PostSettled i r \<Rightarrow> toBlobs s = 0 | _ \<Rightarrow> True"
    and es: "orderly (step s e) es"
    by simp_all
  from step_keeps_apart [OF Cons.prems(2,3) e] Cons.IH [OF es] show ?case
    by (simp add: run_def)
qed

section \<open>The answer presenter\<close>

text \<open>
  C7.  For an answer with status \<open>success\<close>: when the diagram is absent, empty or made of
  white space only, the rendered leaves are the answer text alone, so there is no
  \<open>Diagram\<close> and no \<open>Explanation\<close> label and no vector renderer; when the diagram has a
  character that is not white space, the leaves are the label \<open>Diagram\<close>, the vector
  renderer on the diagram, the label \<open>Explanation\<close> and the answer text, in this order.
  Both copies of the component have the same leaves.
\<close>

theorem C7_diagram_gating:
  assumes "status data = Success"
  shows "((diagram data = None \<or> (\<exists>d. diagram data = Some d \<and> (\<forall>c\<in>set d. isWhiteSpace c)))
            \<longrightarrow> leaves (ResponseRenderer data) = [LatexRenderer (answer data)]
              \<and> Txt ''Diagram'' \<notin> set (leaves (ResponseRenderer data))
              \<and> Txt ''Explanation'' \<notin> set (leaves (ResponseRenderer data)))
       \<and> (\<forall>d. diagram data = Some d \<and> (\<exists>c\<in>set d. \<not> isWhiteSpace c)
            \<longrightarrow> leaves (ResponseRenderer data) =
                  [Txt ''Diagram'', SVGRenderer d, Txt ''Explanation'',
                   LatexRenderer (answer data)])
       \<and> leaves (ResponseRenderer_plain data) = leaves (ResponseRenderer data)"
proof (intro conjI impI allI)
  assume h: "diagram data = None \<or> (\<exists>d. diagram data = Some d \<and> (\<forall>c\<in>set d. isWhiteSpace c))"
  then show l: "leaves (ResponseRenderer data) = [LatexRenderer (answer data)]"
    by (rule leaves_no_diagram)
  show "Txt ''Diagram'' \<notin> set (leaves (ResponseRenderer data))"
    by (simp add: l)
  show "Txt ''Explanation'' \<notin> set (leaves (ResponseRenderer data))"
    by (simp add: l)
next
  fix d
  assume "diagram data = Some d \<and> (\<exists>c\<in>set d. \<not> isWhiteSpace c)"
  then show "leaves (ResponseRenderer data) =
      [Txt ''Diagram'', SVGRenderer d, Txt ''Explanation'', LatexRenderer (answer data)]"
    by (simp add: leaves_with_diagram)
next
  show "leaves (ResponseRenderer_plain data) = leaves (ResponseRenderer data)"
    by (rule leaves_ResponseRenderer_plain)
qed

theorem C7_diagram_gating_witness:
  "leaves (ResponseRenderer
      \<lparr>status = Success, answer = js ''See diagram.'', diagram = Some (js ''<svg></svg>'')\<rparr>)
     = [Txt ''Diagram'', SVGRenderer (js ''<svg></svg>''), Txt ''Explanation'',
        LatexRenderer (js ''See diagram.'')]
   \<and> leaves (ResponseRenderer
      \<lparr>status = Success, answer = js ''The answer is $x=2$.'', diagram = Some (js '' '')\<rparr>)
     = [LatexRenderer (js ''The answer is $x=2$.'')]"
proof -
  let ?a = "\<lparr>status = Success, answer = js ''See diagram.'',
             diagram = Some (js ''<svg></svg>'')\<rparr>"
  let ?b = "\<lparr>status = Success, answer = js ''The answer is $x=2$.'',
             diagram = Some (js '' '')\<rparr>"
  have sa: "status ?a = Success" and sb: "status ?b = Success"
    by simp_all
  have da: "diagram ?a = Some (js ''<svg></svg>'')
              \<and> (\<exists>c\<in>set (js ''<svg></svg>''). \<not> isWhiteSpace c)"
    by (simp add: js_def isWhiteSpace_def)
  have db: "diagram ?b = None
              \<or> (\<exists>d. diagram ?b = Some d \<and> (\<forall>c\<in>set d. isWhiteSpace c))"
    by (simp add: js_def isWhiteSpace_def)
  from C7_diagram_gating [OF sa] da
  have "leaves (ResponseRenderer ?a) =
          [Txt ''Diagram'', SVGRenderer (js ''<svg></svg>''), Txt ''Explanation'',
           LatexRenderer (answer ?a)]"
    by blast
  moreover from C7_diagram_gating [OF sb] db
  have "leaves (ResponseRenderer ?b) = [LatexRenderer (answer ?b)]"
    by blast
  ultimately show ?thesis
    by simp
qed

text \<open>
  C1, as the claim states it, fails: an answer with status \<open>error\<close> whose diagram is not
  blank is rendered with the \<open>Diagram\<close> section and the vector renderer.
\<close>

theorem C1_error_with_diagram_counterexample:
  "leaves (ResponseRenderer
      \<lparr>status = Error, answer = js ''failed'', diagram = Some (js ''<svg></svg>'')\<rparr>)
     = [Txt ''Diagram'', SVGRenderer (js ''<svg></svg>''), Txt ''Explanation'',
        LatexRenderer (js ''failed'')]"
  by (simp add: leaves_ResponseRenderer hasDiagram_def diagramOrEmpty_def trim_def js_def
        isWhiteSpace_def)

text \<open>
  C1, amended.  For an answer with status \<open>error\<close> the box around the answer has the
  error classes and holds the answer text.  The renderer does not read the status: it
  renders what it renders for the same answer with status \<open>success\<close>.  So no diagram is
  rendered when the diagram is absent, empty or white space only, and the \<open>Diagram\<close>
  section with the vector renderer is rendered when the diagram has a character that
  is not white space.
\<close>

theorem C1_error_rendering:
  assumes "status data = Error"
  shows "answerClass data = ''p-3 md:p-4 rounded-lg mt-2 bg-red-100 text-red-700''
       \<and> leaves (answerPanel data) = Txt ''Answer:'' # leaves (ResponseRenderer data)
       \<and> LatexRenderer (answer data) \<in> set (leaves (ResponseRenderer data))
       \<and> ResponseRenderer data = ResponseRenderer (data\<lparr>status := Success\<rparr>)
       \<and> ResponseRenderer_plain data = ResponseRenderer_plain (data\<lparr>status := Success\<rparr>)
       \<and> ((diagram data = None \<or> (\<exists>d. diagram data = Some d \<and> (\<forall>c\<in>set d. isWhiteSpace c)))
            \<longrightarrow> leaves (ResponseRenderer data) = [LatexRenderer (answer data)])
       \<and> (\<forall>d. diagram data = Some d \<and> (\<exists>c\<in>set d. \<not> isWhiteSpace c)
            \<longrightarrow> leaves (ResponseRenderer data) =
                  [Txt ''Diagram'', SVGRenderer d, Txt ''Explanation'',
                   LatexRenderer (answer data)])"
proof (intro conjI impI allI)
  show "answerClass data = ''p-3 md:p-4 rounded-lg mt-2 bg-red-100 text-red-700''"
    using assms by (simp add: answerClass_def)
  show "leaves (answerPanel data) = Txt ''Answer:'' # leaves (ResponseRenderer data)"
    by (simp add: answerPanel_def)
  show "LatexRenderer (answer data) \<in> set (leaves (ResponseRenderer data))"
    by (simp add: leaves_ResponseRenderer)
  show "ResponseRenderer data = ResponseRenderer (data\<lparr>status := Success\<rparr>)"
    by (simp add: ResponseRenderer_ignores_status)
  show "ResponseRenderer_plain data = ResponseRenderer_plain (data\<lparr>status := Success\<rparr>)"
    by (simp add: ResponseRenderer_ignores_status)
next
  assume "diagram data = None \<or> (\<exists>d. diagram data = Some d \<and> (\<forall>c\<in>set d. isWhiteSpace c))"
  then show "leaves (ResponseRenderer data) = [LatexRenderer (answer data)]"
    by (rule leaves_no_diagram)
next
  fix d
  assume "diagram data = Some d \<and> (\<exists>c\<in>set d. \<not> isWhiteSpace c)"
  then show "leaves (ResponseRenderer data) =
      [Txt ''Diagram'', SVGRenderer d, Txt ''Explanation'', LatexRenderer (answer data)]"
    by (simp add: leaves_with_diagram)
qed

theorem C1_error_rendering_witness:
  "answerClass failureAnswer = ''p-3 md:p-4 rounded-lg mt-2 bg-red-100 text-red-700''
   \<and> leaves (ResponseRenderer failureAnswer) = [LatexRenderer (answer failureAnswer)]
   \<and> leaves (ResponseRenderer
        \<lparr>status = Error, answer = js ''failed'', diagram = Some (js ''<svg></svg>'')\<rparr>)
       = [Txt ''Diagram'', SVGRenderer (js ''<svg></svg>''), Txt ''Explanation'',
          LatexRenderer (js ''failed'')]"
proof -
  let ?a = "\<lparr>status = Error, answer = js ''failed'', diagram = Some (js ''<svg></svg>'')\<rparr>"
  have s1: "status failureAnswer = Error"
    by (simp add: failureAnswer_def)
  have d1: "diagram failureAnswer = None
              \<or> (\<exists>d. diagram failureAnswer = Some d \<and> (\<forall>c\<in>set d. isWhiteSpace c))"
    by (simp add: failureAnswer_def)
  have s2: "status ?a = Error"
    by simp
  have d2: "diagram ?a = Some (js ''<svg></svg>'')
              \<and> (\<exists>c\<in>set (js ''<svg></svg>''). \<not> isWhiteSpace c)"
    by (simp add: js_def isWhiteSpace_def)
  from C1_error_rendering [OF s1] d1
  have "answerClass failureAnswer = ''p-3 md:p-4 rounded-lg mt-2 bg-red-100 text-red-700''"
    and "leaves (ResponseRenderer failureAnswer) = [LatexRenderer (answer failureAnswer)]"
    by blast+
  moreover from C1_error_rendering [OF s2] d2
  have "leaves (ResponseRenderer ?a) =
          [Txt ''Diagram'', SVGRenderer (js ''<svg></svg>''), Txt ''Explanation'',
           LatexRenderer (answer ?a)]"
    by blast
  ultimately show ?thesis
    by simp
qed

section \<open>The submission client\<close>




text \<open>
  C5, as the claim states it, fails: the question field of a request is not the
  string of the specification.
\<close>

theorem C5_question_counterexample:
  "map_of (body (uploadRequest (Blob (js ''image/jpeg'') [255, 216]))) (js ''question'')
     \<noteq> Some (FString
          (js ''review this image and solve the question with step-by-step reasoning''))"
  by (simp add: uploadRequest_def formData_def js_def)

text \<open>
  C5, amended.  Every request has exactly the two fields \<open>image\<close> and \<open>question\<close>, and
  the question is the literal of the source, whatever the state and the image: in
  the request that \<open>uploadImage\<close> sends, from a file selection and from a capture.
\<close>

theorem C5_question_constant:
  "map fst (body (uploadRequest file)) = [js ''image'', js ''question'']
   \<and> map_of (body (uploadRequest file)) (js ''question'')
       = Some (FString
           (js ''Can you review this image and solve the question with step by step reasoning?''))
   \<and> last (inflight (uploadImage s file)) = uploadRequest file
   \<and> last (inflight (handleFileSelect s (Some file))) = uploadRequest file
   \<and> last (inflight (toBlobCallback s (Some file) dataURL)) = uploadRequest file"
proof -
  have "js ''image'' \<noteq> js ''question''"
    by (simp add: js_def)
  then show ?thesis
    by (simp add: uploadRequest_def formData_def handleFileSelect_fields
          toBlobCallback_fields uploadImage_fields)
qed

theorem C5_question_constant_witness:
  "map_of (body (last (inflight
      (handleFileSelect init (Some (Blob (js ''image/png'') [1, 2, 3])))))) (js ''question'')
   = Some (FString
       (js ''Can you review this image and solve the question with step by step reasoning?''))"
  using C5_question_constant [of "Blob (js ''image/png'') [1, 2, 3]" init]
  by simp

text \<open>
  C4, as the claim states it, fails.  A file is selected and its request is in flight;
  the camera is started and a frame is captured; the request of the file settles
  before the \<open>toBlob\<close> callback is called.  The callback then sends its request while
  the answer of the file is displayed, and leaves it displayed.
\<close>

theorem C4_answer_not_cleared_counterexample:
  "answer_state
     (run init [FileChange (Some (Blob (js ''image/png'') [1, 2, 3])), TakePhoto, TakePhoto,
                UserMedia (Inr [7]), UserMedia (Inr [0, 1]), Capture,
                PostSettled 0
                  (Inr (AnswerData \<lparr>status = Success, answer = js ''42'', diagram = None\<rparr>))])
     = Some (AnswerData \<lparr>status = Success, answer = js ''42'', diagram = None\<rparr>)
   \<and> inflight
     (run init [FileChange (Some (Blob (js ''image/png'') [1, 2, 3])), TakePhoto, TakePhoto,
                UserMedia (Inr [7]), UserMedia (Inr [0, 1]), Capture,
                PostSettled 0
                  (Inr (AnswerData \<lparr>status = Success, answer = js ''42'', diagram = None\<rparr>))])
     = []
   \<and> inflight
     (run init [FileChange (Some (Blob (js ''image/png'') [1, 2, 3])), TakePhoto, TakePhoto,
                UserMedia (Inr [7]), UserMedia (Inr [0, 1]), Capture,
                PostSettled 0
                  (Inr (AnswerData \<lparr>status = Success, answer = js ''42'', diagram = None\<rparr>)),
                ToBlob (Some (Blob (js ''image/jpeg'') [255, 216])) []])
     = [uploadRequest (Blob (js ''image/jpeg'') [255, 216])]
   \<and> answer_state
     (run init [FileChange (Some (Blob (js ''image/png'') [1, 2, 3])), TakePhoto, TakePhoto,
                UserMedia (Inr [7]), UserMedia (Inr [0, 1]), Capture,
                PostSettled 0
                  (Inr (AnswerData \<lparr>status = Success, answer = js ''42'', diagram = None\<rparr>)),
                ToBlob (Some (Blob (js ''image/jpeg'') [255, 216])) []])
     = Some (AnswerData \<lparr>status = Success, answer = js ''42'', diagram = None\<rparr>)"
  by (simp add: run_def init_def commit_def handleFileSelect_def uploadImage_def
        startCamera_def captureImage_def stopTracks_def uploadImage_settled_def
        toBlobCallback_def)

text \<open>
  C4, amended.  A file selection clears the answer and sets loading in the stretch
  that sends the request.  \<open>uploadImage\<close> sets loading whenever it is called and
  leaves the answer as it is.  A capture with the video mounted clears the answer
  and sets loading, and sends nothing; its callback, called with a blob, sends the
  request with loading on.  The answer is still cleared when a callback sends its
  request, provided no request has settled while a callback was pending.  When a
  request settles, with a response or with an error, loading is cleared.
\<close>

theorem C4_clear_then_release:
  "answer_state (handleFileSelect s (Some f)) = None
   \<and> loading (handleFileSelect s (Some f))
   \<and> inflight (handleFileSelect s (Some f)) = inflight s @ [uploadRequest f]
   \<and> loading (uploadImage s f)
   \<and> answer_state (uploadImage s f) = answer_state s
   \<and> loading (toBlobCallback s (Some b) dataURL)
   \<and> inflight (toBlobCallback s (Some b) dataURL) = inflight s @ [uploadRequest b]
   \<and> (videoRef s \<noteq> None \<longrightarrow>
        answer_state (snd (captureImage s)) = None
        \<and> loading (snd (captureImage s))
        \<and> inflight (snd (captureImage s)) = inflight s
        \<and> answer_state (toBlobCallback (snd (captureImage s)) (Some b) dataURL) = None
        \<and> loading (toBlobCallback (snd (captureImage s)) (Some b) dataURL)
        \<and> inflight (toBlobCallback (snd (captureImage s)) (Some b) dataURL)
            = inflight s @ [uploadRequest b])
   \<and> (showCamera s \<and> videoRef s \<noteq> None \<longrightarrow>
        (\<forall>es. orderly (step s Capture) es \<and> 0 < toBlobs (run (step s Capture) es) \<longrightarrow>
           answer_state (step (run (step s Capture) es) (ToBlob (Some b) dataURL)) = None
           \<and> loading (step (run (step s Capture) es) (ToBlob (Some b) dataURL))
           \<and> inflight (step (run (step s Capture) es) (ToBlob (Some b) dataURL))
               = inflight (run (step s Capture) es) @ [uploadRequest b]))
   \<and> \<not> loading (snd (uploadImage_settled s (Inr data)))
   \<and> \<not> loading (snd (uploadImage_settled s (Inl err)))
   \<and> (i < length (inflight s) \<longrightarrow> \<not> loading (step s (PostSettled i r)))"
proof (intro conjI impI allI)
  fix es
  assume s: "showCamera s \<and> videoRef s \<noteq> None"
    and es: "orderly (step s Capture) es \<and> 0 < toBlobs (run (step s Capture) es)"
  let ?u = "run (step s Capture) es"
  from s obtain v where v: "videoRef s = Some v"
    by blast
  from s have c: "answer_state (step s Capture) = None"
    by (simp add: commit_fields captureImage_fields [OF v])
  from es have o: "orderly (step s Capture) es" and t: "0 < toBlobs ?u"
    by blast+
  from run_keeps_apart [OF o] c t have u: "answer_state ?u = None"
    by blast
  from step_ToBlob_Some(1) [OF t] u
  show "answer_state (step ?u (ToBlob (Some b) dataURL)) = None"
    by (rule trans)
  show "loading (step ?u (ToBlob (Some b) dataURL))"
    by (rule step_ToBlob_Some(2) [OF t])
  show "inflight (step ?u (ToBlob (Some b) dataURL)) = inflight ?u @ [uploadRequest b]"
    by (rule step_ToBlob_Some(3) [OF t])
next
  assume "videoRef s \<noteq> None"
  then obtain v where v: "videoRef s = Some v"
    by blast
  note c = captureImage_fields [OF v]
  show "answer_state (snd (captureImage s)) = None"
    and "loading (snd (captureImage s))"
    and "inflight (snd (captureImage s)) = inflight s"
    by (rule c)+
  show "answer_state (toBlobCallback (snd (captureImage s)) (Some b) dataURL) = None"
    by (simp add: toBlobCallback_fields c)
  show "loading (toBlobCallback (snd (captureImage s)) (Some b) dataURL)"
    by (simp add: toBlobCallback_fields)
  show "inflight (toBlobCallback (snd (captureImage s)) (Some b) dataURL)
          = inflight s @ [uploadRequest b]"
    by (simp add: toBlobCallback_fields c)
next
  assume "i < length (inflight s)"
  then show "\<not> loading (step s (PostSettled i r))"
    by (simp add: uploadImage_settled_def commit_fields split: sum.splits)
qed (simp_all add: handleFileSelect_fields uploadImage_fields toBlobCallback_fields
       uploadImage_settled_def)

theorem C4_clear_then_release_witness:
  "loading (toBlobCallback
      (snd (captureImage
         (run init [TakePhoto, TakePhoto, UserMedia (Inr [7]), UserMedia (Inr [0, 1])])))
      (Some (Blob (js ''image/jpeg'') [255, 216])) (js ''data:image/jpeg;base64,''))
   \<and> answer_state
        (step (run (step (run init [TakePhoto, TakePhoto, UserMedia (Inr [7]),
                                    UserMedia (Inr [0, 1])]) Capture)
                 [FileChange (Some (Blob (js ''image/png'') [4, 5])),
                  ReaderLoadEnd (Some (js ''data:image/png;base64,''))])
           (ToBlob (Some (Blob (js ''image/jpeg'') [255, 216]))
              (js ''data:image/jpeg;base64,'')))
       = None
   \<and> inflight
        (step (run (step (run init [TakePhoto, TakePhoto, UserMedia (Inr [7]),
                                    UserMedia (Inr [0, 1])]) Capture)
                 [FileChange (Some (Blob (js ''image/png'') [4, 5])),
                  ReaderLoadEnd (Some (js ''data:image/png;base64,''))])
           (ToBlob (Some (Blob (js ''image/jpeg'') [255, 216]))
              (js ''data:image/jpeg;base64,'')))
       = [uploadRequest (Blob (js ''image/png'') [4, 5]),
          uploadRequest (Blob (js ''image/jpeg'') [255, 216])]
   \<and> \<not> loading
        (step (run init [FileChange (Some (Blob (js ''image/png'') [1, 2, 3]))])
           (PostSettled 0
              (Inr (AnswerData \<lparr>status = Success, answer = js ''42'', diagram = None\<rparr>))))"
proof -
  let ?t = "run init [TakePhoto, TakePhoto, UserMedia (Inr [7]), UserMedia (Inr [0, 1])]"
  let ?es = "[FileChange (Some (Blob (js ''image/png'') [4, 5])),
              ReaderLoadEnd (Some (js ''data:image/png;base64,''))]"
  let ?s = "run init [FileChange (Some (Blob (js ''image/png'') [1, 2, 3]))]"
  let ?b = "Blob (js ''image/jpeg'') [255, 216]"
  let ?u = "js ''data:image/jpeg;base64,''"
  let ?r = "Inr (AnswerData \<lparr>status = Success, answer = js ''42'', diagram = None\<rparr>)"
  have t: "showCamera ?t \<and> videoRef ?t \<noteq> None"
    by (simp add: run_def init_def commit_def startCamera_def)
  have v: "videoRef ?t \<noteq> None"
    using t by simp
  have es: "orderly (step ?t Capture) ?es \<and> 0 < toBlobs (run (step ?t Capture) ?es)"
    by (simp add: run_def init_def commit_def startCamera_def captureImage_def
          stopTracks_def handleFileSelect_def uploadImage_def readerOnLoadEnd_def)
  have l: "inflight (run (step ?t Capture) ?es) = [uploadRequest (Blob (js ''image/png'') [4, 5])]"
    by (simp add: run_def init_def commit_def startCamera_def captureImage_def
          stopTracks_def handleFileSelect_def uploadImage_def readerOnLoadEnd_def)
  have i: "0 < length (inflight ?s)"
    by (simp add: run_def init_def commit_def handleFileSelect_def uploadImage_def)
  note th = C4_clear_then_release [of ?t _ ?b ?u]
  from th v have "loading (toBlobCallback (snd (captureImage ?t)) (Some ?b) ?u)"
    by blast
  moreover from th t es
  have "answer_state (step (run (step ?t Capture) ?es) (ToBlob (Some ?b) ?u)) = None"
    and "inflight (step (run (step ?t Capture) ?es) (ToBlob (Some ?b) ?u))
           = inflight (run (step ?t Capture) ?es) @ [uploadRequest ?b]"
    by blast+
  moreover from C4_clear_then_release [of ?s _ _ _ _ _ 0 ?r] i
  have "\<not> loading (step ?s (PostSettled 0 ?r))"
    by blast
  ultimately show ?thesis
    using l by simp
qed

section \<open>The image source\<close>

text \<open>
  C8.  When \<open>getUserMedia\<close> is rejected, \<open>startCamera\<close> adds one error line to the
  console and changes nothing else: loading, the answer, the preview image, the
  camera flag and the requests in flight are as before, and so is the rendered tree.
\<close>

theorem C8_camera_failure_only_logged:
  "startCamera s (Inl err)
     = s\<lparr>console := console s @
            [ConsoleError [LStr (js ''Error accessing camera:''), LErr err]]\<rparr>
   \<and> loading (startCamera s (Inl err)) = loading s
   \<and> answer_state (startCamera s (Inl err)) = answer_state s
   \<and> showCamera (startCamera s (Inl err)) = showCamera s
   \<and> selectedImage (startCamera s (Inl err)) = selectedImage s
   \<and> inflight (startCamera s (Inl err)) = inflight s
   \<and> ImageUploader (startCamera s (Inl err)) = ImageUploader s
   \<and> (0 < cameraRequests s \<longrightarrow>
        ImageUploader (step s (UserMedia (Inl err))) = ImageUploader s
        \<and> loading (step s (UserMedia (Inl err))) = loading s
        \<and> answer_state (step s (UserMedia (Inl err))) = answer_state s)"
  by (simp add: startCamera_def ImageUploader_def commit_def)

theorem C8_camera_failure_only_logged_witness:
  "answer_state
     (step (run init [FileChange (Some (Blob (js ''image/png'') [1, 2, 3])),
                      PostSettled 0
                        (Inr (AnswerData
                           \<lparr>status = Success, answer = js ''42'', diagram = None\<rparr>)),
                      TakePhoto])
        (UserMedia (Inl (DOMException (js ''NotAllowedError'')))))
     = Some (AnswerData \<lparr>status = Success, answer = js ''42'', diagram = None\<rparr>)
   \<and> loading
       (step (run init [FileChange (Some (Blob (js ''image/png'') [1, 2, 3])),
                        PostSettled 0
                          (Inr (AnswerData
                             \<lparr>status = Success, answer = js ''42'', diagram = None\<rparr>)),
                        TakePhoto])
          (UserMedia (Inl (DOMException (js ''NotAllowedError''))))) = False"
proof -
  let ?a = "AnswerData \<lparr>status = Success, answer = js ''42'', diagram = None\<rparr>"
  let ?s = "run init [FileChange (Some (Blob (js ''image/png'') [1, 2, 3])),
                      PostSettled 0 (Inr ?a), TakePhoto]"
  have c: "0 < cameraRequests ?s"
    and a: "answer_state ?s = Some ?a"
    and l: "loading ?s = False"
    by (simp_all add: run_def init_def commit_def handleFileSelect_def uploadImage_def
          uploadImage_settled_def)
  from C8_camera_failure_only_logged [of ?s "DOMException (js ''NotAllowedError'')"] c
  have "answer_state (step ?s (UserMedia (Inl (DOMException (js ''NotAllowedError'')))))
          = answer_state ?s"
    and "loading (step ?s (UserMedia (Inl (DOMException (js ''NotAllowedError'')))))
          = loading ?s"
    by blast+
  with a l show ?thesis
    by simp
qed




section \<open>Submissions in flight\<close>

text \<open>
  C2, as the claim states it, fails: a second file selection made while the first
  request is outstanding sends its request too, and two are in flight.
\<close>

theorem C2_two_in_flight_counterexample:
  "loading (run init [FileChange (Some (Blob (js ''image/png'') [1, 2, 3]))])
   \<and> inflight (run init [FileChange (Some (Blob (js ''image/png'') [1, 2, 3]))])
       = [uploadRequest (Blob (js ''image/png'') [1, 2, 3])]
   \<and> inflight (run init [FileChange (Some (Blob (js ''image/png'') [1, 2, 3])),
                         FileChange (Some (Blob (js ''image/png'') [4, 5]))])
       = [uploadRequest (Blob (js ''image/png'') [1, 2, 3]),
          uploadRequest (Blob (js ''image/png'') [4, 5])]"
  by (simp add: run_def init_def commit_def handleFileSelect_def uploadImage_def)

text \<open>
  C2, amended.  No handler looks at loading or at the requests in flight: a file
  selection and a capture callback with a blob send their request at once and add it
  to those in flight, whatever the state, so that one request is in flight after a
  submission only when none was before.  A request that settles leaves the others
  in flight.
\<close>

theorem C2_submission_not_guarded:
  "inflight (handleFileSelect s (Some f)) = inflight s @ [uploadRequest f]
   \<and> inflight (toBlobCallback s (Some b) dataURL) = inflight s @ [uploadRequest b]
   \<and> (inflight s = [] \<longrightarrow> length (inflight (handleFileSelect s (Some f))) = 1)
   \<and> (\<not> showCamera s \<longrightarrow>
        inflight (step s (FileChange (Some f))) = inflight s @ [uploadRequest f])
   \<and> (0 < toBlobs s \<longrightarrow>
        inflight (step s (ToBlob (Some b) dataURL)) = inflight s @ [uploadRequest b])
   \<and> (i < length (inflight s) \<longrightarrow>
        inflight (step s (PostSettled i r))
          = take i (inflight s) @ drop (Suc i) (inflight s))"
  by (simp add: handleFileSelect_fields toBlobCallback_fields commit_fields
        uploadImage_settled_def split: sum.splits)

theorem C2_submission_not_guarded_witness:
  "inflight (step (run init [FileChange (Some (Blob (js ''image/png'') [1, 2, 3]))])
              (FileChange (Some (Blob (js ''image/png'') [4, 5]))))
     = inflight (run init [FileChange (Some (Blob (js ''image/png'') [1, 2, 3]))])
       @ [uploadRequest (Blob (js ''image/png'') [4, 5])]
   \<and> inflight (step (run init [FileChange (Some (Blob (js ''image/png'') [1, 2, 3]))])
                (PostSettled 0 (Inl (AxiosError (js ''ERR_NETWORK'')))))
     = []
   \<and> length (inflight (handleFileSelect init (Some (Blob (js ''image/png'') [1, 2, 3])))) = 1
   \<and> inflight (step (run init [FileChange (Some (Blob (js ''image/png'') [1, 2, 3])),
                               TakePhoto, UserMedia (Inr [0, 1]), Capture])
                (ToBlob (Some (Blob (js ''image/jpeg'') [255, 216])) []))
     = inflight (run init [FileChange (Some (Blob (js ''image/png'') [1, 2, 3])),
                           TakePhoto, UserMedia (Inr [0, 1]), Capture])
       @ [uploadRequest (Blob (js ''image/jpeg'') [255, 216])]"
proof -
  let ?s = "run init [FileChange (Some (Blob (js ''image/png'') [1, 2, 3]))]"
  let ?t = "run init [FileChange (Some (Blob (js ''image/png'') [1, 2, 3])),
                      TakePhoto, UserMedia (Inr [0, 1]), Capture]"
  have c: "\<not> showCamera ?s" and i: "0 < length (inflight ?s)"
    and l: "take 0 (inflight ?s) @ drop (Suc 0) (inflight ?s) = []"
    by (simp_all add: run_def init_def commit_def handleFileSelect_def uploadImage_def)
  have n: "inflight init = []"
    by (simp add: init_def)
  have t: "0 < toBlobs ?t"
    by (simp add: run_def init_def commit_def handleFileSelect_def uploadImage_def
          startCamera_def captureImage_def)
  from C2_submission_not_guarded
         [of ?s "Blob (js ''image/png'') [4, 5]" _ _ 0 "Inl (AxiosError (js ''ERR_NETWORK''))"]
       c i
  have "inflight (step ?s (FileChange (Some (Blob (js ''image/png'') [4, 5]))))
          = inflight ?s @ [uploadRequest (Blob (js ''image/png'') [4, 5])]"
    and "inflight (step ?s (PostSettled 0 (Inl (AxiosError (js ''ERR_NETWORK'')))))
          = take 0 (inflight ?s) @ drop (Suc 0) (inflight ?s)"
    by blast+
  moreover from C2_submission_not_guarded [of init "Blob (js ''image/png'') [1, 2, 3]"] n
  have "length (inflight (handleFileSelect init (Some (Blob (js ''image/png'') [1, 2, 3]))))
          = 1"
    by blast
  moreover from C2_submission_not_guarded [of ?t _ "Blob (js ''image/jpeg'') [255, 216]" "[]"] t
  have "inflight (step ?t (ToBlob (Some (Blob (js ''image/jpeg'') [255, 216])) []))
          = inflight ?t @ [uploadRequest (Blob (js ''image/jpeg'') [255, 216])]"
    by blast
  ultimately show ?thesis
    using l by simp
qed

section \<open>Capture\<close>

text \<open>
  C9, evaluated on the component as it starts.  \<^emph>\<open>Take Photo\<close> is clicked and the
  camera grants a stream with the tracks 0 and 1.  The video element is not mounted
  when \<open>startCamera\<close> resumes, so the stream is assigned to nothing; the element
  mounted by the next render has no \<open>srcObject\<close>.  \<^emph>\<open>Capture\<close> then throws a
  \<open>TypeError\<close>: both tracks are still live and the camera preview is still shown,
  with loading on.
\<close>

theorem C9_tracks_left_live:
  "videoRef (startCamera init (Inr [0, 1])) = None
   \<and> videoRef (run init [TakePhoto, UserMedia (Inr [0, 1])]) = Some \<lparr>srcObject = None\<rparr>
   \<and> fst (captureImage (run init [TakePhoto, UserMedia (Inr [0, 1])])) = Threw TypeError
   \<and> trackState (run init [TakePhoto, UserMedia (Inr [0, 1]), Capture]) 0 = live
   \<and> trackState (run init [TakePhoto, UserMedia (Inr [0, 1]), Capture]) 1 = live
   \<and> showCamera (run init [TakePhoto, UserMedia (Inr [0, 1]), Capture])
   \<and> loading (run init [TakePhoto, UserMedia (Inr [0, 1]), Capture])"
  by (simp add: run_def init_def commit_def startCamera_def captureImage_def)

text \<open>
  C10, as the claim states it, fails in the same run: the callback gets no blob, no
  request is sent and loading stays on, but the tracks of the camera are not stopped.
\<close>

theorem C10_tracks_live_counterexample:
  "inflight (run init [TakePhoto, UserMedia (Inr [0, 1]), Capture, ToBlob None []]) = []
   \<and> loading (run init [TakePhoto, UserMedia (Inr [0, 1]), Capture, ToBlob None []])
   \<and> trackState (run init [TakePhoto, UserMedia (Inr [0, 1]), Capture, ToBlob None []]) 0
       \<noteq> ended
   \<and> trackState (run init [TakePhoto, UserMedia (Inr [0, 1]), Capture, ToBlob None []]) 1
       \<noteq> ended"
  by (simp add: run_def init_def commit_def startCamera_def captureImage_def
        toBlobCallback_def)

text \<open>
  C10, amended.  \<open>captureImage\<close> runs with the video mounted and its callback gets no
  blob.  Then no request has been added and loading is on.  With no request in flight
  before the capture, loading stays on and no request is in flight after any further
  events that are not actions of the user and in which no callback gets a blob.  When
  the video element holds a stream, the tracks of that stream are stopped and the
  camera preview is closed.
\<close>

theorem C10_no_blob_stays_loading:
  assumes "videoRef s = Some v"
  shows "inflight (toBlobCallback (snd (captureImage s)) None dataURL) = inflight s
       \<and> loading (toBlobCallback (snd (captureImage s)) None dataURL)
       \<and> (showCamera s \<and> inflight s = [] \<longrightarrow>
            (\<forall>es. (\<forall>e\<in>set es. \<not> userEvent e \<and> blobless e) \<longrightarrow>
                  loading (run (step s Capture) es)
                  \<and> inflight (run (step s Capture) es) = []))
       \<and> (\<forall>stream. srcObject v = Some stream \<longrightarrow>
            (\<forall>t\<in>set stream.
               trackState (toBlobCallback (snd (captureImage s)) None dataURL) t = ended)
            \<and> \<not> showCamera (toBlobCallback (snd (captureImage s)) None dataURL))"
proof (intro conjI impI allI)
  show "inflight (toBlobCallback (snd (captureImage s)) None dataURL) = inflight s"
    by (simp add: toBlobCallback_fields captureImage_fields [OF assms])
  show "loading (toBlobCallback (snd (captureImage s)) None dataURL)"
    by (simp add: toBlobCallback_fields captureImage_fields [OF assms])
next
  fix es
  assume s: "showCamera s \<and> inflight s = []"
    and es: "\<forall>e\<in>set es. \<not> userEvent e \<and> blobless e"
  from s have "loading (step s Capture)" and "inflight (step s Capture) = []"
    by (simp_all add: commit_fields captureImage_fields [OF assms])
  with es show "loading (run (step s Capture) es)"
    and "inflight (run (step s Capture) es) = []"
    by (simp_all add: run_keeps_loading)
next
  fix stream
  assume st: "srcObject v = Some stream"
  show "\<forall>t\<in>set stream.
          trackState (toBlobCallback (snd (captureImage s)) None dataURL) t = ended"
    by (simp add: toBlobCallback_fields captureImage_stops [OF assms st])
  show "\<not> showCamera (toBlobCallback (snd (captureImage s)) None dataURL)"
    by (simp add: toBlobCallback_fields captureImage_stops [OF assms st])
qed

theorem C10_no_blob_stays_loading_witness:
  "loading (run (step (run init [TakePhoto, TakePhoto, UserMedia (Inr [7]),
                                 UserMedia (Inr [0, 1])]) Capture)
              [ToBlob None [], ReaderLoadEnd None])
   \<and> trackState
        (toBlobCallback
           (snd (captureImage (run init [TakePhoto, TakePhoto, UserMedia (Inr [7]),
                                         UserMedia (Inr [0, 1])]))) None []) 0 = ended
   \<and> trackState
        (toBlobCallback
           (snd (captureImage (run init [TakePhoto, TakePhoto, UserMedia (Inr [7]),
                                         UserMedia (Inr [0, 1])]))) None []) 1 = ended"
proof -
  let ?s = "run init [TakePhoto, TakePhoto, UserMedia (Inr [7]), UserMedia (Inr [0, 1])]"
  let ?v = "\<lparr>srcObject = Some [0, 1]\<rparr>"
  have v: "videoRef ?s = Some ?v"
    by (simp add: run_def init_def commit_def startCamera_def)
  have c: "showCamera ?s \<and> inflight ?s = []"
    by (simp add: run_def init_def commit_def startCamera_def)
  have es: "\<forall>e\<in>set [ToBlob None [], ReaderLoadEnd None]. \<not> userEvent e \<and> blobless e"
    by simp
  have st: "srcObject ?v = Some [0, 1]"
    by simp
  note th = C10_no_blob_stays_loading [OF v, of "[]"]
  from th c es have "loading (run (step ?s Capture) [ToBlob None [], ReaderLoadEnd None])"
    by blast
  moreover from th st
  have "\<forall>t\<in>set [0, 1].
          trackState (toBlobCallback (snd (captureImage ?s)) None []) t = ended"
    by blast
  ultimately show ?thesis
    by simp
qed

end
